theory Spec2Isabelle
  imports Complex_Main
begin

section \<open>The PPO driver \<open>trax/rlax/ppo_main.py\<close>\<close>

text \<open>
  The driver reads a flat set of flags, builds a training and an evaluation environment,
  selects the networks and their optimizers and calls \<open>ppo.training_loop\<close> once. The
  collaborators it calls (gym, the environment problems, jax, the trainer) are not part of
  the file: a call to one of them is recorded in a log, with its arguments, and the value
  it returns is represented by the description of the call. Of the failures inside the
  collaborators only the trainer's is modelled, since the driver's result depends on it;
  \<open>gym.make\<close>, the two environment constructors, \<open>atari_utils.copy_roms\<close> and the import
  of its module are taken to return.
\<close>

subsection \<open>Data\<close>

text \<open>The exceptions the driver can raise or meet.\<close>

datatype error = AssertionError | TypeError | ValueError | TrainerError

text \<open>
  \<open>FLAGS\<close>: one field per \<open>flags.DEFINE_*\<close> of the file, in the order of the file. A string
  flag and an integer flag whose default is \<open>None\<close> are options. Floats are only passed
  on, never computed with; they are reals here. The flag \<open>lambda_\<close> is written
  \<open>lambda'\<close>.
\<close>

record flags =
  env_name :: "string option"
  env_problem_name :: "string option"
  epochs :: int
  random_seed :: "string option"
  batch_size :: int
  boundary :: int
  max_timestep :: "int option"
  truncation_timestep :: "int option"
  jax_debug_nans :: bool
  disable_jit :: bool
  resize :: bool
  resized_height :: int
  resized_width :: int
  combined_network :: bool
  two_towers :: bool
  flatten_dims :: bool
  num_optimizer_steps :: int
  policy_only_num_optimizer_steps :: int
  value_only_num_optimizer_steps :: int
  print_every_optimizer_steps :: int
  learning_rate :: real
  policy_only_learning_rate :: real
  value_only_learning_rate :: real
  target_kl :: real
  value_coef :: real
  entropy_coef :: real
  gamma :: real
  lambda' :: real
  epsilon :: real
  output_dir :: string
  use_tpu :: bool
  enable_early_stopping :: bool
  xm :: bool
  eval_every_n :: int
  eval_batch_size :: int

text \<open>The layers \<open>common_layers\<close> and \<open>atari_layers\<close> build.\<close>

datatype layer = Div real | Flatten nat | Dense nat | Tanh | AtariCnn

text \<open>
  The keyword arguments bound to \<open>gym_utils.gym_env_wrapper\<close> by \<open>functools.partial\<close>
  in \<open>make_env\<close>.
\<close>

datatype dtype = Int32

record wrapper_fn =
  rl_env_max_episode_steps :: "int option"
  maxskip_env :: bool
  rendered_env :: bool
  rendered_env_resize_to :: "int \<times> int"
  sticky_actions :: bool
  output_dtype :: "dtype option"

text \<open>
  An environment is the constructor call that made it: \<open>gym.make(name)\<close>,
  \<open>EnvProblem(base_env_name, batch_size, reward_range)\<close> or
  \<open>RenderedEnvProblem(base_env_name, batch_size, env_wrapper_fn, reward_range)\<close>.
\<close>

datatype env =
  GymMake string
| EnvProblem string int "int \<times> int"
| RenderedEnvProblem string int wrapper_fn "int \<times> int"

text \<open>
  The partial applications handed to the trainer. \<open>bottom_layers_fn=common_layers\<close>
  passes the function itself, which the trainer calls later: it is represented by the
  result the call would have, an error included.
\<close>

datatype net_fun =
  PolicyAndValueNet "error + layer list" bool
| PolicyNet "layer list"
| ValueNet "layer list"

datatype optimizer_fun = OptimizerFun real

text \<open>The keyword arguments of the one call of \<open>ppo.training_loop\<close>.\<close>

record training_loop_kwargs =
  kw_env :: env
  kw_epochs :: int
  kw_policy_net_fun :: "net_fun option"
  kw_value_net_fun :: "net_fun option"
  kw_policy_and_value_net_fun :: "net_fun option"
  kw_policy_optimizer_fun :: "optimizer_fun option"
  kw_value_optimizer_fun :: "optimizer_fun option"
  kw_policy_and_value_optimizer_fun :: "optimizer_fun option"
  kw_num_optimizer_steps :: int
  kw_policy_only_num_optimizer_steps :: int
  kw_value_only_num_optimizer_steps :: int
  kw_print_every_optimizer_steps :: int
  kw_batch_size :: int
  kw_target_kl :: real
  kw_boundary :: int
  kw_max_timestep :: "int option"
  kw_random_seed :: "int option"
  kw_c1 :: real
  kw_c2 :: real
  kw_gamma :: real
  kw_lambda' :: real
  kw_epsilon :: real
  kw_enable_early_stopping :: bool
  kw_output_dir :: string
  kw_eval_every_n :: int
  kw_eval_env :: env

text \<open>
  The calls to collaborators, in the order they happen. A call of the trainer records
  whether jit was disabled at the moment of the call.
\<close>

datatype event =
  Construct env
| CopyRoms
| TrainingLoop bool training_loop_kwargs

text \<open>
  The state of the process outside the driver's local variables: the two jax
  configuration values \<open>config.update\<close> writes, the thread-local switch
  \<open>jax.disable_jit\<close> sets, the flag \<open>FLAGS.atari_roms_path\<close> that \<open>main\<close> assigns, and the
  log of calls.
\<close>

record world =
  config_jax_debug_nans :: bool
  config_jax_platform_name :: "string option"
  jit_is_disabled :: bool
  atari_roms_path :: "string option"
  calls :: "event list"

text \<open>
  What the driver takes from outside the repository: the builtin \<open>int\<close> on a string
  (\<open>None\<close> where it raises \<open>ValueError\<close>), the outcome of \<open>ppo.training_loop\<close>
  (\<open>None\<close> where it returns, the exception where it raises), and whether the context
  manager \<open>jax.disable_jit\<close> restores the switch when its body raised: one written with
  \<open>try\<close> and \<open>finally\<close> does, one that restores after a bare \<open>yield\<close> does not.
\<close>

record collaborators =
  int_of_str :: "string \<Rightarrow> int option"
  training_loop :: "training_loop_kwargs \<Rightarrow> error option"
  disable_jit_restores_on_raise :: bool

subsection \<open>Python operations the driver uses\<close>

text \<open>\<open>if s:\<close> on a string flag: \<open>None\<close> and the empty string are false.\<close>

fun truthy :: "string option \<Rightarrow> string option" where
  "truthy None = None"
| "truthy (Some s) = (if s = [] then None else Some s)"

text \<open>\<open>sub in s\<close> on strings: \<open>sub\<close> occurs in \<open>s\<close> as a contiguous run.\<close>

fun str_contains :: "string \<Rightarrow> string \<Rightarrow> bool" where
  "str_contains sub [] = (sub = [])"
| "str_contains sub (c # cs) = (take (length sub) (c # cs) = sub \<or> str_contains sub cs)"

text \<open>\<open>sub in x\<close> where \<open>x\<close> may be \<open>None\<close>: \<open>None\<close> is not iterable.\<close>

fun py_in :: "string \<Rightarrow> string option \<Rightarrow> error + bool" where
  "py_in sub None = Inl TypeError"
| "py_in sub (Some s) = Inr (str_contains sub s)"

text \<open>\<open>int(x)\<close> on the value of a string flag: \<open>int(None)\<close> raises \<open>TypeError\<close>.\<close>

fun py_int :: "collaborators \<Rightarrow> string option \<Rightarrow> error + int" where
  "py_int X None = Inl TypeError"
| "py_int X (Some s) = (case int_of_str X s of None \<Rightarrow> Inl ValueError | Some n \<Rightarrow> Inr n)"

text \<open>A call of a collaborator is appended to the log.\<close>

definition log_call :: "event \<Rightarrow> world \<Rightarrow> world" where
  "log_call ev w = w\<lparr>calls := calls w @ [ev]\<rparr>"

text \<open>A constructor call of a collaborator: logged, and the environment returned.\<close>

definition construct :: "env \<Rightarrow> world \<Rightarrow> (error + env) \<times> world" where
  "construct e w = (Inr e, log_call (Construct e) w)"

text \<open>
  \<open>with jax.disable_jit():\<close> saves the switch, sets it and runs the body. When the body
  returns, the saved value is restored; when it raises, the exception goes on, and the
  saved value is restored if the context manager does that.
\<close>

definition jax_disable_jit ::
  "collaborators \<Rightarrow> (world \<Rightarrow> (error + unit) \<times> world) \<Rightarrow> world \<Rightarrow>
     (error + unit) \<times> world" where
  "jax_disable_jit X body w =
     (let prev_val = jit_is_disabled w;
          (r, w') = body (w\<lparr>jit_is_disabled := True\<rparr>)
      in case r of
           Inr u \<Rightarrow> (r, w'\<lparr>jit_is_disabled := prev_val\<rparr>)
         | Inl e \<Rightarrow>
             (r, if disable_jit_restores_on_raise X then w'\<lparr>jit_is_disabled := prev_val\<rparr>
                 else w'))"

subsection \<open>The functions of the file\<close>

definition atari_layers :: "layer list" where
  "atari_layers = [AtariCnn]"

definition common_layers :: "flags \<Rightarrow> error + layer list" where
  "common_layers F =
     (case py_in ''Pong'' (env_problem_name F) of
        Inl e \<Rightarrow> Inl e
      | Inr pong \<Rightarrow>
          if pong then Inr atari_layers
          else
            let cur_layers = (if flatten_dims F then [Div 255, Flatten 2] else []);
                body = [Dense 64, Tanh, Dense 64, Tanh]
            in Inr (cur_layers @ body))"

definition make_env :: "flags \<Rightarrow> int \<Rightarrow> world \<Rightarrow> (error + env) \<times> world" where
  "make_env F batch_size' w =
     (case truthy (env_name F) of
        Some name \<Rightarrow> construct (GymMake name) w
      | None \<Rightarrow>
          (case truthy (env_problem_name F) of
             None \<Rightarrow> (Inl AssertionError, w)
           | Some problem \<Rightarrow>
               if \<not> resize F then
                 construct (EnvProblem problem batch_size' (-1, 1)) w
               else
                 let wrapper = \<lparr>
                       rl_env_max_episode_steps = max_timestep F,
                       maxskip_env = True,
                       rendered_env = True,
                       rendered_env_resize_to = (resized_height F, resized_width F),
                       sticky_actions = False,
                       output_dtype = (if use_tpu F then Some Int32 else None)\<rparr>
                 in construct (RenderedEnvProblem problem batch_size' wrapper (-1, 1)) w))"

definition get_optimizer_fun :: "real \<Rightarrow> optimizer_fun" where
  "get_optimizer_fun learning_rate' = OptimizerFun learning_rate'"

text \<open>
  \<open>run_training_loop\<close>, the closure of \<open>main\<close> over \<open>env\<close> and \<open>eval_env\<close>. The six
  network and optimizer variables start as \<open>None\<close> and one branch assigns its own; the
  separate branch calls \<open>common_layers()\<close> twice, and either call can raise. The seed
  is \<open>None\<close> unless \<open>int(FLAGS.random_seed)\<close> returns: \<open>except Exception: pass\<close> drops
  whatever it raised. Then the trainer is called, and what it raises is not caught.
\<close>

definition run_training_loop ::
  "collaborators \<Rightarrow> flags \<Rightarrow> env \<Rightarrow> env \<Rightarrow> world \<Rightarrow> (error + unit) \<times> world" where
  "run_training_loop X F env' eval_env w =
     (case
        (if combined_network F then
           Inr (None, None,
                Some (PolicyAndValueNet (common_layers F) (two_towers F)),
                None, None,
                Some (get_optimizer_fun (learning_rate F)))
         else
           (case common_layers F of
              Inl e \<Rightarrow> Inl e
            | Inr policy_bottom \<Rightarrow>
                (case common_layers F of
                   Inl e \<Rightarrow> Inl e
                 | Inr value_bottom \<Rightarrow>
                     Inr (Some (PolicyNet policy_bottom),
                          Some (ValueNet value_bottom),
                          None,
                          Some (get_optimizer_fun (policy_only_learning_rate F)),
                          Some (get_optimizer_fun (value_only_learning_rate F)),
                          None))))
      of
        Inl e \<Rightarrow> (Inl e, w)
      | Inr (policy_net_fun, value_net_fun, policy_and_value_net_fun,
             policy_optimizer_fun, value_optimizer_fun, policy_and_value_optimizer_fun) \<Rightarrow>
          let seed = (case py_int X (random_seed F) of Inl e \<Rightarrow> None | Inr n \<Rightarrow> Some n);
              kwargs = \<lparr>
                kw_env = env',
                kw_epochs = epochs F,
                kw_policy_net_fun = policy_net_fun,
                kw_value_net_fun = value_net_fun,
                kw_policy_and_value_net_fun = policy_and_value_net_fun,
                kw_policy_optimizer_fun = policy_optimizer_fun,
                kw_value_optimizer_fun = value_optimizer_fun,
                kw_policy_and_value_optimizer_fun = policy_and_value_optimizer_fun,
                kw_num_optimizer_steps = num_optimizer_steps F,
                kw_policy_only_num_optimizer_steps = policy_only_num_optimizer_steps F,
                kw_value_only_num_optimizer_steps = value_only_num_optimizer_steps F,
                kw_print_every_optimizer_steps = print_every_optimizer_steps F,
                kw_batch_size = batch_size F,
                kw_target_kl = target_kl F,
                kw_boundary = boundary F,
                kw_max_timestep = truncation_timestep F,
                kw_random_seed = seed,
                kw_c1 = value_coef F,
                kw_c2 = entropy_coef F,
                kw_gamma = gamma F,
                kw_lambda' = lambda' F,
                kw_epsilon = epsilon F,
                kw_enable_early_stopping = enable_early_stopping F,
                kw_output_dir = output_dir F,
                kw_eval_every_n = eval_every_n F,
                kw_eval_env = eval_env\<rparr>;
              w' = log_call (TrainingLoop (jit_is_disabled w) kwargs) w
          in (case training_loop X kwargs of
                Some e \<Rightarrow> (Inl e, w')
              | None \<Rightarrow> (Inr (), w')))"

text \<open>
  \<open>main\<close>. The two \<open>config.update\<close> calls come first and are plain assignments. The
  test \<open>"Pong" in FLAGS.env_problem_name and FLAGS.xm\<close> evaluates its left operand
  whatever \<open>xm\<close> is. \<open>assert env\<close> and \<open>assert eval_env\<close> test objects that have no
  \<open>__bool__\<close> or \<open>__len__\<close>, so they pass.
\<close>

definition main :: "collaborators \<Rightarrow> flags \<Rightarrow> world \<Rightarrow> (error + unit) \<times> world" where
  "main X F w0 =
     (let w1 = (if jax_debug_nans F then w0\<lparr>config_jax_debug_nans := True\<rparr> else w0);
          w2 = (if use_tpu F then w1\<lparr>config_jax_platform_name := Some ''tpu''\<rparr> else w1)
      in
        (case py_in ''Pong'' (env_problem_name F) of
           Inl e \<Rightarrow> (Inl e, w2)
         | Inr pong \<Rightarrow>
             let w3 = (if pong \<and> xm F then
                         log_call CopyRoms (w2\<lparr>atari_roms_path := Some ''local_ram_fs_tmp''\<rparr>)
                       else w2)
             in
               (case make_env F (batch_size F) w3 of
                  (Inl e, w4) \<Rightarrow> (Inl e, w4)
                | (Inr env', w4) \<Rightarrow>
                    (case make_env F (eval_batch_size F) w4 of
                       (Inl e, w5) \<Rightarrow> (Inl e, w5)
                     | (Inr eval_env, w5) \<Rightarrow>
                         if jax_debug_nans F \<or> disable_jit F then
                           jax_disable_jit X (run_training_loop X F env' eval_env) w5
                         else
                           run_training_loop X F env' eval_env w5))))"

subsection \<open>Observations and sample inputs\<close>

text \<open>
  What \<open>run_training_loop\<close> returns once it has called the trainer: nothing when the
  trainer returned, the trainer's exception otherwise.
\<close>

definition outcome :: "collaborators \<Rightarrow> training_loop_kwargs \<Rightarrow> error + unit" where
  "outcome X kw = (case training_loop X kw of Some e \<Rightarrow> Inl e | None \<Rightarrow> Inr ())"

text \<open>The state after the two \<open>config.update\<close> statements that open \<open>main\<close>.\<close>

definition preflight :: "flags \<Rightarrow> world \<Rightarrow> world" where
  "preflight F w =
     (let w1 = (if jax_debug_nans F then w\<lparr>config_jax_debug_nans := True\<rparr> else w)
      in if use_tpu F then w1\<lparr>config_jax_platform_name := Some ''tpu''\<rparr> else w1)"

text \<open>The calls logged between an earlier state and a later one.\<close>

definition calls_since :: "world \<Rightarrow> world \<Rightarrow> event list" where
  "calls_since w w' = drop (length (calls w)) (calls w')"

text \<open>The environments constructed by a sequence of calls, in order.\<close>

fun constructed :: "event list \<Rightarrow> env list" where
  "constructed [] = []"
| "constructed (Construct e # evs) = e # constructed evs"
| "constructed (CopyRoms # evs) = constructed evs"
| "constructed (TrainingLoop j kw # evs) = constructed evs"

text \<open>Every flag at the default its \<open>DEFINE_*\<close> gives it.\<close>

definition default_flags :: flags where
  "default_flags = \<lparr>
     env_name = None,
     env_problem_name = None,
     epochs = 100,
     random_seed = None,
     batch_size = 32,
     boundary = 20,
     max_timestep = None,
     truncation_timestep = None,
     jax_debug_nans = False,
     disable_jit = False,
     resize = False,
     resized_height = 105,
     resized_width = 80,
     combined_network = False,
     two_towers = True,
     flatten_dims = False,
     num_optimizer_steps = 100,
     policy_only_num_optimizer_steps = 80,
     value_only_num_optimizer_steps = 80,
     print_every_optimizer_steps = 1,
     learning_rate = 1 / 1000,
     policy_only_learning_rate = 3 / 10000,
     value_only_learning_rate = 1 / 1000,
     target_kl = 1 / 100,
     value_coef = 1,
     entropy_coef = 1 / 100,
     gamma = 99 / 100,
     lambda' = 95 / 100,
     epsilon = 1 / 10,
     output_dir = [],
     use_tpu = False,
     enable_early_stopping = True,
     xm = False,
     eval_every_n = 100,
     eval_batch_size = 4\<rparr>"

text \<open>A process that has touched nothing yet.\<close>

definition initial_world :: world where
  "initial_world = \<lparr>
     config_jax_debug_nans = False,
     config_jax_platform_name = None,
     jit_is_disabled = False,
     atari_roms_path = None,
     calls = []\<rparr>"

text \<open>
  Sample collaborators. \<open>decimal_int\<close> reads an optional sign and ASCII decimal digits,
  where the builtin \<open>int\<close> agrees with it; the builtin accepts more (blanks around the
  numeral, underscores between digits), which is why the model takes it as a parameter
  and the theorems hold for every \<open>int_of_str\<close>. The trainer of the first returns and
  that of the second raises; in both, \<open>jax.disable_jit\<close> restores on every exit.
\<close>

fun digits_value :: "int \<Rightarrow> string \<Rightarrow> int option" where
  "digits_value acc [] = Some acc"
| "digits_value acc (c # cs) =
     (let d = int (of_char c) - 48
      in if 0 \<le> d \<and> d \<le> 9 then digits_value (10 * acc + d) cs else None)"

definition decimal_int :: "string \<Rightarrow> int option" where
  "decimal_int s =
     (case s of
        [] \<Rightarrow> None
      | c # cs \<Rightarrow>
          if cs \<noteq> [] \<and> c = CHR ''-'' then map_option uminus (digits_value 0 cs)
          else if cs \<noteq> [] \<and> c = CHR ''+'' then digits_value 0 cs
          else digits_value 0 s)"

definition returning_trainer :: collaborators where
  "returning_trainer = \<lparr>
     int_of_str = decimal_int,
     training_loop = (\<lambda>kw. None),
     disable_jit_restores_on_raise = True\<rparr>"

definition raising_trainer :: collaborators where
  "raising_trainer = \<lparr>
     int_of_str = decimal_int,
     training_loop = (\<lambda>kw. Some TrainerError),
     disable_jit_restores_on_raise = True\<rparr>"

text \<open>The same raising trainer under a context manager that restores after a bare \<open>yield\<close>.\<close>

definition raising_trainer_bare_yield :: collaborators where
  "raising_trainer_bare_yield = raising_trainer\<lparr>disable_jit_restores_on_raise := False\<rparr>"

text \<open>
  Sample option sets: a vector environment with separate networks, an image environment
  built through the rendering wrapper with a combined network, the sample invocation of
  the file's docstring, a gym environment named beside a problem name, and a run that
  debugs NaNs.
\<close>

definition cartpole_flags :: flags where
  "cartpole_flags = default_flags\<lparr>
     env_problem_name := Some ''CartPole-v1'', batch_size := 4, eval_batch_size := 2\<rparr>"

definition pong_flags :: flags where
  "pong_flags = default_flags\<lparr>
     env_problem_name := Some ''PongNoFrameskip-v4'', resize := True,
     max_timestep := Some 1000, combined_network := True, use_tpu := True\<rparr>"

definition acrobot_flags :: flags where
  "acrobot_flags = default_flags\<lparr>
     env_problem_name := Some ''Acrobot-v1'', random_seed := Some ''0'', boundary := 100\<rparr>"

definition gym_flags :: flags where
  "gym_flags = default_flags\<lparr>
     env_name := Some ''CartPole-v0'', env_problem_name := Some ''Acrobot-v1''\<rparr>"

definition nan_debug_flags :: flags where
  "nan_debug_flags = cartpole_flags\<lparr>jax_debug_nans := True\<rparr>"

section \<open>Properties\<close>

subsection \<open>Auxiliary facts\<close>

lemma log_call_simps:
  "calls (log_call ev w) = calls w @ [ev]"
  "jit_is_disabled (log_call ev w) = jit_is_disabled w"
  "config_jax_debug_nans (log_call ev w) = config_jax_debug_nans w"
  "config_jax_platform_name (log_call ev w) = config_jax_platform_name w"
  "atari_roms_path (log_call ev w) = atari_roms_path w"
  by (simp_all add: log_call_def)

lemma preflight_simps:
  "calls (preflight F w) = calls w"
  "jit_is_disabled (preflight F w) = jit_is_disabled w"
  "config_jax_debug_nans (preflight F w) = (jax_debug_nans F \<or> config_jax_debug_nans w)"
  "config_jax_platform_name (preflight F w) =
     (if use_tpu F then Some ''tpu'' else config_jax_platform_name w)"
  "atari_roms_path (preflight F w) = atari_roms_path w"
  by (simp_all add: preflight_def Let_def)

lemma calls_since_append: "calls w' = calls w @ evs \<Longrightarrow> calls_since w w' = evs"
  by (simp add: calls_since_def)


text \<open>\<open>str_contains\<close> is the substring relation.\<close>

lemma str_contains_iff: "str_contains sub s \<longleftrightarrow> (\<exists>ps ss. s = ps @ sub @ ss)"
proof (induction s)
  case Nil
  then show ?case by auto
next
  case (Cons c cs)
  have here: "take (length sub) (c # cs) = sub \<longleftrightarrow> (\<exists>ss. c # cs = sub @ ss)"
    by (metis append_eq_conv_conj)
  have split: "(\<exists>ps ss. c # cs = ps @ sub @ ss) \<longleftrightarrow>
      (\<exists>ss. c # cs = sub @ ss) \<or> (\<exists>ps ss. cs = ps @ sub @ ss)"
  proof
    assume "\<exists>ps ss. c # cs = ps @ sub @ ss"
    then obtain ps ss where h: "c # cs = ps @ sub @ ss" by blast
    show "(\<exists>ss. c # cs = sub @ ss) \<or> (\<exists>ps ss. cs = ps @ sub @ ss)"
    proof (cases ps)
      case Nil
      with h show ?thesis by auto
    next
      case (Cons q qs)
      with h have "cs = qs @ sub @ ss" by simp
      then show ?thesis by blast
    qed
  next
    assume "(\<exists>ss. c # cs = sub @ ss) \<or> (\<exists>ps ss. cs = ps @ sub @ ss)"
    then show "\<exists>ps ss. c # cs = ps @ sub @ ss"
    proof
      assume "\<exists>ss. c # cs = sub @ ss"
      then obtain ss where "c # cs = [] @ sub @ ss" by auto
      then show ?thesis by blast
    next
      assume "\<exists>ps ss. cs = ps @ sub @ ss"
      then obtain ps ss where "cs = ps @ sub @ ss" by blast
      then have "c # cs = (c # ps) @ sub @ ss" by simp
      then show ?thesis by blast
    qed
  qed
  from here split Cons.IH show ?case by simp
qed

text \<open>The four ways out of \<open>make_env\<close>.\<close>

lemma make_env_gym:
  "truthy (env_name F) = Some n \<Longrightarrow>
   make_env F b w = (Inr (GymMake n), log_call (Construct (GymMake n)) w)"
  by (simp add: make_env_def construct_def)

lemma make_env_assert:
  "truthy (env_name F) = None \<Longrightarrow> truthy (env_problem_name F) = None \<Longrightarrow>
   make_env F b w = (Inl AssertionError, w)"
  by (simp add: make_env_def)

lemma make_env_plain:
  "truthy (env_name F) = None \<Longrightarrow> truthy (env_problem_name F) = Some p \<Longrightarrow> \<not> resize F \<Longrightarrow>
   make_env F b w =
     (Inr (EnvProblem p b (-1, 1)), log_call (Construct (EnvProblem p b (-1, 1))) w)"
  by (simp add: make_env_def construct_def)

lemma make_env_rendered:
  "truthy (env_name F) = None \<Longrightarrow> truthy (env_problem_name F) = Some p \<Longrightarrow> resize F \<Longrightarrow>
   make_env F b w =
     (Inr (RenderedEnvProblem p b
        \<lparr>rl_env_max_episode_steps = max_timestep F,
         maxskip_env = True, rendered_env = True,
         rendered_env_resize_to = (resized_height F, resized_width F),
         sticky_actions = False,
         output_dtype = (if use_tpu F then Some Int32 else None)\<rparr> (-1, 1)),
      log_call (Construct (RenderedEnvProblem p b
        \<lparr>rl_env_max_episode_steps = max_timestep F,
         maxskip_env = True, rendered_env = True,
         rendered_env_resize_to = (resized_height F, resized_width F),
         sticky_actions = False,
         output_dtype = (if use_tpu F then Some Int32 else None)\<rparr> (-1, 1))) w)"
  by (simp add: make_env_def construct_def Let_def)

lemma make_env_ok:
  assumes "truthy (env_name F) \<noteq> None \<or> truthy (env_problem_name F) \<noteq> None"
  shows "\<exists>e. \<forall>w. make_env F b w = (Inr e, log_call (Construct e) w)"
proof (cases "truthy (env_name F)")
  case (Some n)
  then show ?thesis using make_env_gym by blast
next
  case None
  with assms obtain p where p: "truthy (env_problem_name F) = Some p" by auto
  show ?thesis
  proof (cases "resize F")
    case True
    with None p show ?thesis using make_env_rendered by blast
  next
    case False
    with None p show ?thesis using make_env_plain by blast
  qed
qed

text \<open>\<open>common_layers\<close> with and without a problem name.\<close>

lemma common_layers_Some:
  "env_problem_name F = Some p \<Longrightarrow>
   common_layers F =
     Inr (if str_contains ''Pong'' p then [AtariCnn]
          else (if flatten_dims F then [Div 255, Flatten 2] else []) @
               [Dense 64, Tanh, Dense 64, Tanh])"
  by (simp add: common_layers_def atari_layers_def Let_def)

lemma common_layers_None:
  "env_problem_name F = None \<Longrightarrow> common_layers F = Inl TypeError"
  by (simp add: common_layers_def)

text \<open>
  \<open>run_training_loop\<close> in its two modes: the keyword arguments do not depend on the
  state, and the trainer's outcome is the result.
\<close>

lemma run_training_loop_combined:
  assumes "combined_network F"
  shows "\<exists>kw. (\<forall>w. run_training_loop X F e ev w =
             (outcome X kw, log_call (TrainingLoop (jit_is_disabled w) kw) w))
     \<and> kw_env kw = e \<and> kw_eval_env kw = ev
     \<and> kw_random_seed kw = (case random_seed F of None \<Rightarrow> None | Some s \<Rightarrow> int_of_str X s)
     \<and> kw_policy_and_value_net_fun kw = Some (PolicyAndValueNet (common_layers F) (two_towers F))
     \<and> kw_policy_and_value_optimizer_fun kw = Some (get_optimizer_fun (learning_rate F))
     \<and> kw_policy_net_fun kw = None \<and> kw_value_net_fun kw = None
     \<and> kw_policy_optimizer_fun kw = None \<and> kw_value_optimizer_fun kw = None"
  using assms unfolding run_training_loop_def outcome_def
  by (cases "random_seed F") (auto simp: Let_def split: option.splits)

lemma run_training_loop_separate:
  assumes "\<not> combined_network F" and "common_layers F = Inr ls"
  shows "\<exists>kw. (\<forall>w. run_training_loop X F e ev w =
             (outcome X kw, log_call (TrainingLoop (jit_is_disabled w) kw) w))
     \<and> kw_env kw = e \<and> kw_eval_env kw = ev
     \<and> kw_random_seed kw = (case random_seed F of None \<Rightarrow> None | Some s \<Rightarrow> int_of_str X s)
     \<and> kw_policy_net_fun kw = Some (PolicyNet ls) \<and> kw_value_net_fun kw = Some (ValueNet ls)
     \<and> kw_policy_optimizer_fun kw = Some (get_optimizer_fun (policy_only_learning_rate F))
     \<and> kw_value_optimizer_fun kw = Some (get_optimizer_fun (value_only_learning_rate F))
     \<and> kw_policy_and_value_net_fun kw = None
     \<and> kw_policy_and_value_optimizer_fun kw = None"
  using assms unfolding run_training_loop_def outcome_def
  by (cases "random_seed F") (auto simp: Let_def split: option.splits)

lemma run_training_loop_raises:
  assumes "\<not> combined_network F" and "common_layers F = Inl err"
  shows "run_training_loop X F e ev w = (Inl err, w)"
  using assms unfolding run_training_loop_def by simp

text \<open>The three ways through \<open>main\<close>.\<close>

lemma main_no_problem_name:
  "env_problem_name F = None \<Longrightarrow> main X F w = (Inl TypeError, preflight F w)"
  by (simp add: main_def preflight_def Let_def)

lemma main_assert:
  assumes "truthy (env_name F) = None" and "env_problem_name F = Some []"
  shows "main X F w = (Inl AssertionError, preflight F w)"
proof -
  have "make_env F b v = (Inl AssertionError, v)" for b v
    using assms by (simp add: make_env_assert)
  then show ?thesis
    using assms by (simp add: main_def preflight_def Let_def)
qed

lemma main_reaches:
  assumes p: "env_problem_name F = Some p"
    and m1: "\<forall>v. make_env F (batch_size F) v = (Inr e, log_call (Construct e) v)"
    and m2: "\<forall>v. make_env F (eval_batch_size F) v = (Inr ev, log_call (Construct ev) v)"
    and r: "\<forall>v. run_training_loop X F e ev v =
              (outcome X kw, log_call (TrainingLoop (jit_is_disabled v) kw) v)"
  shows "fst (main X F w) = outcome X kw"
    and "calls (snd (main X F w)) =
           calls w @ (if str_contains ''Pong'' p \<and> xm F then [CopyRoms] else []) @
           [Construct e, Construct ev,
            TrainingLoop (jax_debug_nans F \<or> disable_jit F \<or> jit_is_disabled w) kw]"
    and "jit_is_disabled (snd (main X F w)) =
           (if (jax_debug_nans F \<or> disable_jit F) \<and> training_loop X kw \<noteq> None
               \<and> \<not> disable_jit_restores_on_raise X
            then True else jit_is_disabled w)"
    and "config_jax_debug_nans (snd (main X F w)) = (jax_debug_nans F \<or> config_jax_debug_nans w)"
    and "config_jax_platform_name (snd (main X F w)) =
           (if use_tpu F then Some ''tpu'' else config_jax_platform_name w)"
  using p
  by (simp_all add: main_def m1 m2 r jax_disable_jit_def outcome_def Let_def log_call_simps
      split: option.splits)

lemma run_training_loop_reaches:
  assumes "env_problem_name F = Some p"
  shows "\<exists>kw. (\<forall>w. run_training_loop X F e ev w =
             (outcome X kw, log_call (TrainingLoop (jit_is_disabled w) kw) w))
     \<and> kw_env kw = e \<and> kw_eval_env kw = ev"
proof (cases "combined_network F")
  case True
  from run_training_loop_combined [OF True, of X e ev] show ?thesis by blast
next
  case False
  from assms obtain ls where "common_layers F = Inr ls"
    using common_layers_Some by blast
  from run_training_loop_separate [OF False this, of X e ev] show ?thesis by blast
qed

lemma main_valid:
  assumes p: "env_problem_name F = Some p"
    and m1: "\<forall>v. make_env F (batch_size F) v = (Inr e, log_call (Construct e) v)"
    and m2: "\<forall>v. make_env F (eval_batch_size F) v = (Inr ev, log_call (Construct ev) v)"
  shows "\<exists>kw. kw_env kw = e \<and> kw_eval_env kw = ev
     \<and> fst (main X F w) = outcome X kw
     \<and> calls (snd (main X F w)) =
         calls w @ (if str_contains ''Pong'' p \<and> xm F then [CopyRoms] else []) @
         [Construct e, Construct ev,
          TrainingLoop (jax_debug_nans F \<or> disable_jit F \<or> jit_is_disabled w) kw]
     \<and> jit_is_disabled (snd (main X F w)) =
           (if (jax_debug_nans F \<or> disable_jit F) \<and> training_loop X kw \<noteq> None
               \<and> \<not> disable_jit_restores_on_raise X
            then True else jit_is_disabled w)
     \<and> config_jax_debug_nans (snd (main X F w)) = (jax_debug_nans F \<or> config_jax_debug_nans w)
     \<and> config_jax_platform_name (snd (main X F w)) =
         (if use_tpu F then Some ''tpu'' else config_jax_platform_name w)"
proof -
  from run_training_loop_reaches [OF p, of X e ev] obtain kw
    where r: "\<forall>v. run_training_loop X F e ev v =
                (outcome X kw, log_call (TrainingLoop (jit_is_disabled v) kw) v)"
      and k: "kw_env kw = e" "kw_eval_env kw = ev"
    by blast
  from main_reaches [OF p m1 m2 r, of w] k show ?thesis by blast
qed

lemma main_named:
  assumes p: "env_problem_name F = Some p"
    and v: "truthy (env_name F) \<noteq> None \<or> p \<noteq> []"
  shows "\<exists>e ev kw. kw_env kw = e \<and> kw_eval_env kw = ev
     \<and> fst (main X F w) = outcome X kw
     \<and> calls (snd (main X F w)) =
         calls w @ (if str_contains ''Pong'' p \<and> xm F then [CopyRoms] else []) @
         [Construct e, Construct ev,
          TrainingLoop (jax_debug_nans F \<or> disable_jit F \<or> jit_is_disabled w) kw]
     \<and> jit_is_disabled (snd (main X F w)) =
           (if (jax_debug_nans F \<or> disable_jit F) \<and> training_loop X kw \<noteq> None
               \<and> \<not> disable_jit_restores_on_raise X
            then True else jit_is_disabled w)
     \<and> config_jax_debug_nans (snd (main X F w)) = (jax_debug_nans F \<or> config_jax_debug_nans w)
     \<and> config_jax_platform_name (snd (main X F w)) =
         (if use_tpu F then Some ''tpu'' else config_jax_platform_name w)"
proof -
  from p v have t: "truthy (env_name F) \<noteq> None \<or> truthy (env_problem_name F) \<noteq> None"
    by auto
  from make_env_ok [OF t, of "batch_size F"] obtain e
    where m1: "\<forall>v. make_env F (batch_size F) v = (Inr e, log_call (Construct e) v)"
    by blast
  from make_env_ok [OF t, of "eval_batch_size F"] obtain ev
    where m2: "\<forall>v. make_env F (eval_batch_size F) v = (Inr ev, log_call (Construct ev) v)"
    by blast
  from main_valid [OF p m1 m2, of X w] show ?thesis by blast
qed

lemma main_gym:
  assumes n: "truthy (env_name F) = Some n" and p: "env_problem_name F = Some p"
  shows "\<exists>kw. kw_env kw = GymMake n \<and> kw_eval_env kw = GymMake n
     \<and> fst (main X F w) = outcome X kw
     \<and> calls (snd (main X F w)) =
         calls w @ (if str_contains ''Pong'' p \<and> xm F then [CopyRoms] else []) @
         [Construct (GymMake n), Construct (GymMake n),
          TrainingLoop (jax_debug_nans F \<or> disable_jit F \<or> jit_is_disabled w) kw]"
proof -
  have m: "\<forall>v. make_env F b v = (Inr (GymMake n), log_call (Construct (GymMake n)) v)" for b
    using n by (simp add: make_env_gym)
  from main_valid [OF p m m, of X w] show ?thesis by blast
qed

text \<open>What \<open>main\<close> leaves of the process state, on every path.\<close>

lemma main_config:
  "config_jax_debug_nans (snd (main X F w)) = (jax_debug_nans F \<or> config_jax_debug_nans w)
   \<and> config_jax_platform_name (snd (main X F w)) =
       (if use_tpu F then Some ''tpu'' else config_jax_platform_name w)"
proof (cases "env_problem_name F")
  case None
  then show ?thesis by (simp add: main_no_problem_name preflight_simps)
next
  case (Some p)
  show ?thesis
  proof (cases "truthy (env_name F) \<noteq> None \<or> p \<noteq> []")
    case True
    from main_named [OF Some True, of X w] show ?thesis by blast
  next
    case False
    with Some have "truthy (env_name F) = None" "env_problem_name F = Some []" by simp_all
    then show ?thesis by (simp add: main_assert preflight_simps)
  qed
qed

lemma main_jit:
  assumes "disable_jit_restores_on_raise X \<or> fst (main X F w) = Inr ()
           \<or> \<not> (jax_debug_nans F \<or> disable_jit F)"
  shows "jit_is_disabled (snd (main X F w)) = jit_is_disabled w"
proof (cases "env_problem_name F")
  case None
  then show ?thesis by (simp add: main_no_problem_name preflight_simps)
next
  case (Some p)
  show ?thesis
  proof (cases "truthy (env_name F) \<noteq> None \<or> p \<noteq> []")
    case True
    from main_named [OF Some True, of X w] obtain kw
      where f: "fst (main X F w) = outcome X kw"
        and j: "jit_is_disabled (snd (main X F w)) =
           (if (jax_debug_nans F \<or> disable_jit F) \<and> training_loop X kw \<noteq> None
               \<and> \<not> disable_jit_restores_on_raise X
            then True else jit_is_disabled w)"
      by blast
    from f have "fst (main X F w) = Inr () \<Longrightarrow> training_loop X kw = None"
      by (simp add: outcome_def split: option.splits)
    with assms j show ?thesis by auto
  next
    case False
    with Some have "truthy (env_name F) = None" "env_problem_name F = Some []" by simp_all
    then show ?thesis by (simp add: main_assert preflight_simps)
  qed
qed

subsection \<open>The body of the networks\<close>

text \<open>
  C7. When the problem name contains \<open>Pong\<close>, \<open>common_layers\<close> returns the Atari
  stack of \<open>atari_layers\<close>, the one layer \<open>AtariCnn\<close>. For every other problem name it
  returns \<open>Dense 64, Tanh, Dense 64, Tanh\<close>, preceded by \<open>Div 255\<close> and \<open>Flatten\<close> keeping
  two axes exactly when \<open>flatten_dims\<close> is set.
\<close>

theorem common_layers_selection:
  assumes "env_problem_name F = Some s"
  shows "common_layers F =
           Inr (if \<exists>ps ss. s = ps @ ''Pong'' @ ss then atari_layers
                else (if flatten_dims F then [Div 255, Flatten 2] else []) @
                     [Dense 64, Tanh, Dense 64, Tanh])
         \<and> atari_layers = [AtariCnn]"
  using assms by (simp add: common_layers_Some str_contains_iff atari_layers_def)

theorem common_layers_selection_witness:
  "env_problem_name pong_flags = Some ''PongNoFrameskip-v4''
   \<and> common_layers pong_flags = Inr [AtariCnn]
   \<and> env_problem_name cartpole_flags = Some ''CartPole-v1''
   \<and> common_layers cartpole_flags = Inr [Dense 64, Tanh, Dense 64, Tanh]
   \<and> common_layers (cartpole_flags\<lparr>flatten_dims := True\<rparr>) =
       Inr [Div 255, Flatten 2, Dense 64, Tanh, Dense 64, Tanh]"
proof -
  have p: "env_problem_name pong_flags = Some ''PongNoFrameskip-v4''"
    by (simp add: pong_flags_def default_flags_def)
  have c: "env_problem_name cartpole_flags = Some ''CartPole-v1''"
    by (simp add: cartpole_flags_def default_flags_def)
  have c': "env_problem_name (cartpole_flags\<lparr>flatten_dims := True\<rparr>) = Some ''CartPole-v1''"
    by (simp add: cartpole_flags_def default_flags_def)
  have yes: "\<exists>ps ss. ''PongNoFrameskip-v4'' = ps @ ''Pong'' @ ss"
    using str_contains_iff [of "''Pong''" "''PongNoFrameskip-v4''"] by simp
  have no: "\<not> (\<exists>ps ss. ''CartPole-v1'' = ps @ ''Pong'' @ ss)"
    using str_contains_iff [of "''Pong''" "''CartPole-v1''"] by simp
  have f: "\<not> flatten_dims cartpole_flags"
    by (simp add: cartpole_flags_def default_flags_def)
  show ?thesis
    using common_layers_selection [OF p] common_layers_selection [OF c]
      common_layers_selection [OF c'] yes no f p c
    by simp
qed

subsection \<open>The environments\<close>

text \<open>
  C2. When no environment is named (\<open>env_name\<close> unset or empty, and \<open>env_problem_name\<close>
  unset or empty), \<open>main\<close> raises before anything is constructed: the state it leaves is
  the one after the two \<open>config.update\<close> statements, with no call logged, so neither an
  environment nor a network or trainer call exists. With an empty problem name the
  exception is the \<open>AssertionError\<close> of \<open>assert FLAGS.env_problem_name\<close> in \<open>make_env\<close>;
  with the problem name unset it is the \<open>TypeError\<close> of the test
  \<open>"Pong" in FLAGS.env_problem_name\<close>, which \<open>main\<close> evaluates before \<open>make_env\<close>.
\<close>

theorem missing_environment_fails_fast:
  assumes "truthy (env_name F) = None" and "truthy (env_problem_name F) = None"
  shows "fst (main X F w) =
           (if env_problem_name F = None then Inl TypeError else Inl AssertionError)
         \<and> snd (main X F w) = preflight F w
         \<and> calls (snd (main X F w)) = calls w
         \<and> make_env F b w = (Inl AssertionError, w)"
proof (cases "env_problem_name F")
  case None
  then show ?thesis
    using assms by (simp add: main_no_problem_name preflight_simps make_env_assert)
next
  case (Some p)
  with assms have "env_problem_name F = Some []"
    by (simp split: if_splits)
  with assms show ?thesis
    by (simp add: main_assert preflight_simps make_env_assert)
qed

theorem missing_environment_fails_fast_witness:
  "truthy (env_name (default_flags\<lparr>env_problem_name := Some []\<rparr>)) = None
   \<and> truthy (env_problem_name (default_flags\<lparr>env_problem_name := Some []\<rparr>)) = None
   \<and> fst (main returning_trainer (default_flags\<lparr>env_problem_name := Some []\<rparr>) initial_world)
       = Inl AssertionError
   \<and> calls (snd (main returning_trainer (default_flags\<lparr>env_problem_name := Some []\<rparr>)
       initial_world)) = []
   \<and> truthy (env_name default_flags) = None
   \<and> truthy (env_problem_name default_flags) = None
   \<and> fst (main returning_trainer default_flags initial_world) = Inl TypeError
   \<and> calls (snd (main returning_trainer default_flags initial_world)) = []"
proof -
  have a: "truthy (env_name (default_flags\<lparr>env_problem_name := Some []\<rparr>)) = None"
    and b: "truthy (env_problem_name (default_flags\<lparr>env_problem_name := Some []\<rparr>)) = None"
    and a': "truthy (env_name default_flags) = None"
    and b': "truthy (env_problem_name default_flags) = None"
    by (simp_all add: default_flags_def)
  have n: "env_problem_name default_flags = None"
    by (simp add: default_flags_def)
  have e: "env_problem_name (default_flags\<lparr>env_problem_name := Some []\<rparr>) \<noteq> None"
    by simp
  have i: "calls initial_world = []"
    by (simp add: initial_world_def)
  note empty = missing_environment_fails_fast
    [OF a b, where X = returning_trainer and w = initial_world and b = 32]
  note unset = missing_environment_fails_fast
    [OF a' b', where X = returning_trainer and w = initial_world and b = 32]
  from empty e have 1:
    "fst (main returning_trainer (default_flags\<lparr>env_problem_name := Some []\<rparr>) initial_world)
       = Inl AssertionError"
    by simp
  from empty i have 2:
    "calls (snd (main returning_trainer (default_flags\<lparr>env_problem_name := Some []\<rparr>)
       initial_world)) = []"
    by (simp add: preflight_simps)
  from unset n have 3: "fst (main returning_trainer default_flags initial_world) = Inl TypeError"
    by simp
  from unset i have 4: "calls (snd (main returning_trainer default_flags initial_world)) = []"
    by (simp add: preflight_simps)
  from a b a' b' 1 2 3 4 show ?thesis
    by blast
qed

text \<open>
  C5. With \<open>env_name\<close> unset, a non-empty problem name and \<open>resize\<close> false, \<open>make_env\<close>
  returns \<open>EnvProblem\<close> built from the problem name, the batch size it was given and the
  reward range \<open>(-1, 1)\<close>, and that constructor is the only call it makes. The flags
  the rendering wrapper is configured from (\<open>max_timestep\<close>, \<open>resized_height\<close>,
  \<open>resized_width\<close>, \<open>use_tpu\<close>) are not read: changing them changes nothing.
\<close>

theorem make_env_plain_batched:
  assumes "truthy (env_name F) = None" and "env_problem_name F = Some p" and "p \<noteq> []"
    and "\<not> resize F"
  shows "make_env F b w =
           (Inr (EnvProblem p b (-1, 1)), log_call (Construct (EnvProblem p b (-1, 1))) w)
         \<and> (\<forall>mt h wd tpu.
               make_env (F\<lparr>max_timestep := mt, resized_height := h, resized_width := wd,
                            use_tpu := tpu\<rparr>) b w = make_env F b w)"
proof -
  have t: "truthy (env_problem_name F) = Some p"
    using assms by simp
  have "make_env G b w =
          (Inr (EnvProblem p b (-1, 1)), log_call (Construct (EnvProblem p b (-1, 1))) w)"
    if "env_name G = env_name F" and "env_problem_name G = env_problem_name F"
      and "resize G = resize F" for G
    using that assms t by (simp add: make_env_plain)
  then show ?thesis by simp
qed

theorem make_env_plain_batched_witness:
  "truthy (env_name cartpole_flags) = None
   \<and> env_problem_name cartpole_flags = Some ''CartPole-v1''
   \<and> ''CartPole-v1'' \<noteq> []
   \<and> resize cartpole_flags = False
   \<and> fst (make_env cartpole_flags 4 initial_world) = Inr (EnvProblem ''CartPole-v1'' 4 (-1, 1))
   \<and> calls (snd (make_env cartpole_flags 4 initial_world)) =
       [Construct (EnvProblem ''CartPole-v1'' 4 (-1, 1))]
   \<and> fst (make_env cartpole_flags 2 initial_world) = Inr (EnvProblem ''CartPole-v1'' 2 (-1, 1))"
proof -
  have a: "truthy (env_name cartpole_flags) = None"
    and b: "env_problem_name cartpole_flags = Some ''CartPole-v1''"
    and c: "''CartPole-v1'' \<noteq> []"
    and d: "\<not> resize cartpole_flags"
    by (simp_all add: cartpole_flags_def default_flags_def)
  show ?thesis
    using make_env_plain_batched [OF a b c d, of 4 initial_world]
      make_env_plain_batched [OF a b c d, of 2 initial_world] a b d
    by (simp add: log_call_simps initial_world_def)
qed

text \<open>
  C6. With \<open>env_name\<close> unset, a non-empty problem name and \<open>resize\<close> true, \<open>make_env\<close>
  returns \<open>RenderedEnvProblem\<close> whose wrapper has \<open>max_timestep\<close> as the episode step
  limit, frame skipping with max-pooling and rendering switched on, the rendering resized
  to \<open>(resized_height, resized_width)\<close>, sticky actions off, and the output type
  \<open>int32\<close> exactly when \<open>use_tpu\<close> is set, \<open>None\<close> otherwise.
\<close>

theorem make_env_rendered_wrapper:
  assumes "truthy (env_name F) = None" and "env_problem_name F = Some p" and "p \<noteq> []"
    and "resize F"
  shows "make_env F b w =
     (Inr (RenderedEnvProblem p b
        \<lparr>rl_env_max_episode_steps = max_timestep F,
         maxskip_env = True,
         rendered_env = True,
         rendered_env_resize_to = (resized_height F, resized_width F),
         sticky_actions = False,
         output_dtype = (if use_tpu F then Some Int32 else None)\<rparr> (-1, 1)),
      log_call (Construct (RenderedEnvProblem p b
        \<lparr>rl_env_max_episode_steps = max_timestep F,
         maxskip_env = True,
         rendered_env = True,
         rendered_env_resize_to = (resized_height F, resized_width F),
         sticky_actions = False,
         output_dtype = (if use_tpu F then Some Int32 else None)\<rparr> (-1, 1))) w)"
proof -
  have "truthy (env_problem_name F) = Some p"
    using assms by simp
  with assms show ?thesis by (simp add: make_env_rendered)
qed

theorem make_env_rendered_wrapper_witness:
  "truthy (env_name pong_flags) = None
   \<and> env_problem_name pong_flags = Some ''PongNoFrameskip-v4''
   \<and> ''PongNoFrameskip-v4'' \<noteq> []
   \<and> resize pong_flags
   \<and> fst (make_env pong_flags 32 initial_world) =
       Inr (RenderedEnvProblem ''PongNoFrameskip-v4'' 32
         \<lparr>rl_env_max_episode_steps = Some 1000,
          maxskip_env = True,
          rendered_env = True,
          rendered_env_resize_to = (105, 80),
          sticky_actions = False,
          output_dtype = Some Int32\<rparr> (-1, 1))
   \<and> fst (make_env (pong_flags\<lparr>use_tpu := False, max_timestep := None\<rparr>) 32 initial_world) =
       Inr (RenderedEnvProblem ''PongNoFrameskip-v4'' 32
         \<lparr>rl_env_max_episode_steps = None,
          maxskip_env = True,
          rendered_env = True,
          rendered_env_resize_to = (105, 80),
          sticky_actions = False,
          output_dtype = None\<rparr> (-1, 1))"
proof -
  have a: "truthy (env_name pong_flags) = None"
    and b: "env_problem_name pong_flags = Some ''PongNoFrameskip-v4''"
    and c: "''PongNoFrameskip-v4'' \<noteq> []"
    and d: "resize pong_flags"
    by (simp_all add: pong_flags_def default_flags_def)
  have a': "truthy (env_name (pong_flags\<lparr>use_tpu := False, max_timestep := None\<rparr>)) = None"
    and b': "env_problem_name (pong_flags\<lparr>use_tpu := False, max_timestep := None\<rparr>) =
               Some ''PongNoFrameskip-v4''"
    and d': "resize (pong_flags\<lparr>use_tpu := False, max_timestep := None\<rparr>)"
    by (simp_all add: pong_flags_def default_flags_def)
  have v: "max_timestep pong_flags = Some 1000" "use_tpu pong_flags"
    "resized_height pong_flags = 105" "resized_width pong_flags = 80"
    by (simp_all add: pong_flags_def default_flags_def)
  show ?thesis
    using make_env_rendered_wrapper [OF a b c d, of 32 initial_world]
      make_env_rendered_wrapper [OF a' b' c d', of 32 initial_world] a b d v
    by simp
qed



text \<open>
  C10. When \<open>env_name\<close> is given, \<open>make_env\<close> returns \<open>gym.make(env_name)\<close> whatever its
  \<open>batch_size\<close> argument and whatever \<open>resize\<close>, \<open>max_timestep\<close>, \<open>resized_height\<close>,
  \<open>resized_width\<close> and \<open>use_tpu\<close> hold; the environment has no batch size and no reward
  range. So the environments a run of \<open>main\<close> constructs are the same for every value of
  \<open>batch_size\<close> and \<open>eval_batch_size\<close>; when the run gets to them (the problem name is a
  string) they are two identical \<open>gym.make(env_name)\<close>, and the trainer is called with that
  environment as both \<open>env\<close> and \<open>eval_env\<close>.
\<close>

theorem gym_env_ignores_batching:
  assumes "env_name F = Some n" and "n \<noteq> []"
  shows "(\<forall>b' r mt h wd tpu.
            make_env (F\<lparr>resize := r, max_timestep := mt, resized_height := h,
                         resized_width := wd, use_tpu := tpu\<rparr>) b' w =
              (Inr (GymMake n), log_call (Construct (GymMake n)) w))
         \<and> (\<forall>bs ebs.
               constructed (calls_since w
                 (snd (main X (F\<lparr>batch_size := bs, eval_batch_size := ebs\<rparr>) w))) =
               constructed (calls_since w (snd (main X F w))))
         \<and> (\<forall>p. env_problem_name F = Some p \<longrightarrow>
               (\<exists>pre j kw. calls_since w (snd (main X F w)) =
                    pre @ [Construct (GymMake n), Construct (GymMake n), TrainingLoop j kw]
                  \<and> constructed pre = []
                  \<and> kw_env kw = GymMake n \<and> kw_eval_env kw = GymMake n))"
proof -
  have t: "truthy (env_name F) = Some n"
    using assms by simp
  have g: "make_env G b' w = (Inr (GymMake n), log_call (Construct (GymMake n)) w)"
    if "env_name G = env_name F" for G b'
    using that t by (simp add: make_env_gym)
  have made: "constructed (calls_since w (snd (main X G w))) =
                (if env_problem_name F = None then [] else [GymMake n, GymMake n])"
    if e: "env_name G = env_name F" and q: "env_problem_name G = env_problem_name F" for G
  proof (cases "env_problem_name F")
    case None
    with q have "calls_since w (snd (main X G w)) = []"
      by (simp add: main_no_problem_name calls_since_append preflight_simps)
    with None show ?thesis by simp
  next
    case (Some p)
    from e t have t': "truthy (env_name G) = Some n" by simp
    from q Some have p': "env_problem_name G = Some p" by simp
    from main_gym [OF t' p', of X w] obtain kw j
      where "calls (snd (main X G w)) =
               calls w @ (if str_contains ''Pong'' p \<and> xm G then [CopyRoms] else []) @
               [Construct (GymMake n), Construct (GymMake n), TrainingLoop j kw]"
      by blast
    then have "calls_since w (snd (main X G w)) =
                 (if str_contains ''Pong'' p \<and> xm G then [CopyRoms] else []) @
                 [Construct (GymMake n), Construct (GymMake n), TrainingLoop j kw]"
      by (rule calls_since_append)
    with Some show ?thesis by simp
  qed
  have same: "constructed (calls_since w
                (snd (main X (F\<lparr>batch_size := bs, eval_batch_size := ebs\<rparr>) w))) =
              constructed (calls_since w (snd (main X F w)))" for bs ebs
    using made [of "F\<lparr>batch_size := bs, eval_batch_size := ebs\<rparr>"] made [of F] by simp
  have reach: "\<exists>pre j kw. calls_since w (snd (main X F w)) =
                    pre @ [Construct (GymMake n), Construct (GymMake n), TrainingLoop j kw]
                  \<and> constructed pre = []
                  \<and> kw_env kw = GymMake n \<and> kw_eval_env kw = GymMake n"
    if p: "env_problem_name F = Some p" for p
  proof -
    from main_gym [OF t p, of X w] obtain kw
      where k: "kw_env kw = GymMake n" "kw_eval_env kw = GymMake n"
        and c: "calls (snd (main X F w)) =
               calls w @ (if str_contains ''Pong'' p \<and> xm F then [CopyRoms] else []) @
               [Construct (GymMake n), Construct (GymMake n),
                TrainingLoop (jax_debug_nans F \<or> disable_jit F \<or> jit_is_disabled w) kw]"
      by blast
    from c have "calls_since w (snd (main X F w)) =
                 (if str_contains ''Pong'' p \<and> xm F then [CopyRoms] else []) @
                 [Construct (GymMake n), Construct (GymMake n),
                  TrainingLoop (jax_debug_nans F \<or> disable_jit F \<or> jit_is_disabled w) kw]"
      by (rule calls_since_append)
    moreover have "constructed (if str_contains ''Pong'' p \<and> xm F then [CopyRoms] else []) = []"
      by simp
    ultimately show ?thesis using k by blast
  qed
  from g same reach show ?thesis by simp
qed

theorem gym_env_ignores_batching_witness:
  "env_name gym_flags = Some ''CartPole-v0''
   \<and> ''CartPole-v0'' \<noteq> []
   \<and> env_problem_name gym_flags = Some ''Acrobot-v1''
   \<and> make_env (gym_flags\<lparr>resize := True, max_timestep := Some 5, resized_height := 1,
        resized_width := 2, use_tpu := True\<rparr>) 7 initial_world =
       (Inr (GymMake ''CartPole-v0''), log_call (Construct (GymMake ''CartPole-v0'')) initial_world)
   \<and> constructed (calls_since initial_world
        (snd (main returning_trainer (gym_flags\<lparr>batch_size := 4, eval_batch_size := 2\<rparr>)
           initial_world))) =
       constructed (calls_since initial_world (snd (main returning_trainer gym_flags initial_world)))
   \<and> (\<exists>pre j kw. calls_since initial_world (snd (main returning_trainer gym_flags initial_world)) =
          pre @ [Construct (GymMake ''CartPole-v0''), Construct (GymMake ''CartPole-v0''),
                 TrainingLoop j kw]
        \<and> constructed pre = []
        \<and> kw_env kw = GymMake ''CartPole-v0'' \<and> kw_eval_env kw = GymMake ''CartPole-v0'')"
proof -
  have a: "env_name gym_flags = Some ''CartPole-v0''"
    and b: "''CartPole-v0'' \<noteq> []"
    and c: "env_problem_name gym_flags = Some ''Acrobot-v1''"
    by (simp_all add: gym_flags_def default_flags_def)
  note inst = gym_env_ignores_batching
    [OF a b, where w = initial_world and X = returning_trainer]
  from inst have 1: "make_env (gym_flags\<lparr>resize := True, max_timestep := Some 5,
        resized_height := 1, resized_width := 2, use_tpu := True\<rparr>) 7 initial_world =
       (Inr (GymMake ''CartPole-v0''), log_call (Construct (GymMake ''CartPole-v0'')) initial_world)"
    by blast
  from inst have 2: "constructed (calls_since initial_world
        (snd (main returning_trainer (gym_flags\<lparr>batch_size := 4, eval_batch_size := 2\<rparr>)
           initial_world))) =
       constructed (calls_since initial_world (snd (main returning_trainer gym_flags initial_world)))"
    by blast
  from inst c have 3: "\<exists>pre j kw.
        calls_since initial_world (snd (main returning_trainer gym_flags initial_world)) =
          pre @ [Construct (GymMake ''CartPole-v0''), Construct (GymMake ''CartPole-v0''),
                 TrainingLoop j kw]
        \<and> constructed pre = []
        \<and> kw_env kw = GymMake ''CartPole-v0'' \<and> kw_eval_env kw = GymMake ''CartPole-v0''"
    by blast
  from a b c 1 2 3 show ?thesis by blast
qed

subsection \<open>Networks, optimizers and the seed\<close>

text \<open>
  C1. On every option set with which \<open>main\<close> gets to \<open>run_training_loop\<close> (the problem
  name is a string), the trainer is called once. With \<open>combined_network\<close> set, the call
  carries \<open>policy_and_value_net_fun\<close> and \<open>policy_and_value_optimizer_fun\<close> and the four
  separate arguments \<open>policy_net_fun\<close>, \<open>value_net_fun\<close>, \<open>policy_optimizer_fun\<close> and
  \<open>value_optimizer_fun\<close> are \<open>None\<close>; with it unset, the four separate arguments are
  given and the two combined ones are \<open>None\<close>.
\<close>

theorem network_bundle_shape:
  assumes "env_problem_name F = Some p"
  shows "\<exists>kw. run_training_loop X F e ev w =
                (outcome X kw, log_call (TrainingLoop (jit_is_disabled w) kw) w)
     \<and> (if combined_network F then
           kw_policy_and_value_net_fun kw \<noteq> None
           \<and> kw_policy_and_value_optimizer_fun kw \<noteq> None
           \<and> kw_policy_net_fun kw = None
           \<and> kw_value_net_fun kw = None
           \<and> kw_policy_optimizer_fun kw = None
           \<and> kw_value_optimizer_fun kw = None
         else
           kw_policy_net_fun kw \<noteq> None
           \<and> kw_value_net_fun kw \<noteq> None
           \<and> kw_policy_optimizer_fun kw \<noteq> None
           \<and> kw_value_optimizer_fun kw \<noteq> None
           \<and> kw_policy_and_value_net_fun kw = None
           \<and> kw_policy_and_value_optimizer_fun kw = None)"
proof (cases "combined_network F")
  case True
  from run_training_loop_combined [OF True, of X e ev] obtain kw
    where "run_training_loop X F e ev w =
             (outcome X kw, log_call (TrainingLoop (jit_is_disabled w) kw) w)"
      and "kw_policy_and_value_net_fun kw \<noteq> None"
      and "kw_policy_and_value_optimizer_fun kw \<noteq> None"
      and "kw_policy_net_fun kw = None" and "kw_value_net_fun kw = None"
      and "kw_policy_optimizer_fun kw = None" and "kw_value_optimizer_fun kw = None"
    by auto
  with True show ?thesis by auto
next
  case False
  from assms obtain ls where "common_layers F = Inr ls"
    using common_layers_Some by blast
  from run_training_loop_separate [OF False this, of X e ev] obtain kw
    where "run_training_loop X F e ev w =
             (outcome X kw, log_call (TrainingLoop (jit_is_disabled w) kw) w)"
      and "kw_policy_net_fun kw \<noteq> None" and "kw_value_net_fun kw \<noteq> None"
      and "kw_policy_optimizer_fun kw \<noteq> None" and "kw_value_optimizer_fun kw \<noteq> None"
      and "kw_policy_and_value_net_fun kw = None"
      and "kw_policy_and_value_optimizer_fun kw = None"
    by auto
  with False show ?thesis by auto
qed

theorem network_bundle_shape_witness:
  "env_problem_name cartpole_flags = Some ''CartPole-v1''
   \<and> combined_network cartpole_flags = False
   \<and> (\<exists>kw. run_training_loop returning_trainer cartpole_flags
              (EnvProblem ''CartPole-v1'' 4 (-1, 1)) (EnvProblem ''CartPole-v1'' 2 (-1, 1))
              initial_world =
            (Inr (), log_call (TrainingLoop False kw) initial_world)
        \<and> kw_policy_net_fun kw \<noteq> None
        \<and> kw_value_net_fun kw \<noteq> None
        \<and> kw_policy_optimizer_fun kw \<noteq> None
        \<and> kw_value_optimizer_fun kw \<noteq> None
        \<and> kw_policy_and_value_net_fun kw = None
        \<and> kw_policy_and_value_optimizer_fun kw = None)
   \<and> env_problem_name pong_flags = Some ''PongNoFrameskip-v4''
   \<and> combined_network pong_flags = True
   \<and> (\<exists>kw. run_training_loop returning_trainer pong_flags
              (EnvProblem ''PongNoFrameskip-v4'' 32 (-1, 1))
              (EnvProblem ''PongNoFrameskip-v4'' 4 (-1, 1)) initial_world =
            (Inr (), log_call (TrainingLoop False kw) initial_world)
        \<and> kw_policy_and_value_net_fun kw \<noteq> None
        \<and> kw_policy_and_value_optimizer_fun kw \<noteq> None
        \<and> kw_policy_net_fun kw = None
        \<and> kw_value_net_fun kw = None
        \<and> kw_policy_optimizer_fun kw = None
        \<and> kw_value_optimizer_fun kw = None)"
proof -
  have a: "env_problem_name cartpole_flags = Some ''CartPole-v1''"
    and b: "combined_network cartpole_flags = False"
    by (simp_all add: cartpole_flags_def default_flags_def)
  have c: "env_problem_name pong_flags = Some ''PongNoFrameskip-v4''"
    and d: "combined_network pong_flags = True"
    by (simp_all add: pong_flags_def default_flags_def)
  have o: "outcome returning_trainer kw = Inr ()" for kw
    by (simp add: outcome_def returning_trainer_def)
  have j: "jit_is_disabled initial_world = False"
    by (simp add: initial_world_def)
  from network_bundle_shape [OF a, of returning_trainer
      "EnvProblem ''CartPole-v1'' 4 (-1, 1)" "EnvProblem ''CartPole-v1'' 2 (-1, 1)" initial_world]
  have 1: "\<exists>kw. run_training_loop returning_trainer cartpole_flags
              (EnvProblem ''CartPole-v1'' 4 (-1, 1)) (EnvProblem ''CartPole-v1'' 2 (-1, 1))
              initial_world =
            (Inr (), log_call (TrainingLoop False kw) initial_world)
        \<and> kw_policy_net_fun kw \<noteq> None
        \<and> kw_value_net_fun kw \<noteq> None
        \<and> kw_policy_optimizer_fun kw \<noteq> None
        \<and> kw_value_optimizer_fun kw \<noteq> None
        \<and> kw_policy_and_value_net_fun kw = None
        \<and> kw_policy_and_value_optimizer_fun kw = None"
    by (simp add: b o j)
  from network_bundle_shape [OF c, of returning_trainer
      "EnvProblem ''PongNoFrameskip-v4'' 32 (-1, 1)"
      "EnvProblem ''PongNoFrameskip-v4'' 4 (-1, 1)" initial_world]
  have 2: "\<exists>kw. run_training_loop returning_trainer pong_flags
              (EnvProblem ''PongNoFrameskip-v4'' 32 (-1, 1))
              (EnvProblem ''PongNoFrameskip-v4'' 4 (-1, 1)) initial_world =
            (Inr (), log_call (TrainingLoop False kw) initial_world)
        \<and> kw_policy_and_value_net_fun kw \<noteq> None
        \<and> kw_policy_and_value_optimizer_fun kw \<noteq> None
        \<and> kw_policy_net_fun kw = None
        \<and> kw_value_net_fun kw = None
        \<and> kw_policy_optimizer_fun kw = None
        \<and> kw_value_optimizer_fun kw = None"
    by (simp add: d o j)
  from a b c d 1 2 show ?thesis by blast
qed

text \<open>
  C3. One binding path is taken, and the factory it makes holds the rate it was given:
  \<open>get_optimizer_fun(r)\<close> is \<open>ppo.optimizer_fun\<close> with \<open>step_size=r\<close>. In combined mode the
  one optimizer factory has step size \<open>learning_rate\<close> and the two separate factories
  are \<open>None\<close>; in separate mode the policy factory has step size
  \<open>policy_only_learning_rate\<close>, the value factory has step size
  \<open>value_only_learning_rate\<close>, and the combined one is \<open>None\<close>. Of two runs that differ
  only in \<open>policy_only_learning_rate\<close> the value factory is the same, and of two runs that
  differ only in \<open>value_only_learning_rate\<close> the policy factory is the same.
\<close>

theorem learning_rate_binding:
  assumes "env_problem_name F = Some p"
  shows "(\<forall>r. get_optimizer_fun r = OptimizerFun r)
     \<and> (\<exists>kw. run_training_loop X F e ev w =
                (outcome X kw, log_call (TrainingLoop (jit_is_disabled w) kw) w)
     \<and> (if combined_network F then
           kw_policy_and_value_optimizer_fun kw = Some (OptimizerFun (learning_rate F))
           \<and> kw_policy_optimizer_fun kw = None
           \<and> kw_value_optimizer_fun kw = None
         else
           kw_policy_optimizer_fun kw = Some (OptimizerFun (policy_only_learning_rate F))
           \<and> kw_value_optimizer_fun kw = Some (OptimizerFun (value_only_learning_rate F))
           \<and> kw_policy_and_value_optimizer_fun kw = None)
     \<and> (\<forall>x. \<exists>kw'. run_training_loop X (F\<lparr>policy_only_learning_rate := x\<rparr>) e ev w =
                (outcome X kw', log_call (TrainingLoop (jit_is_disabled w) kw') w)
            \<and> kw_value_optimizer_fun kw' = kw_value_optimizer_fun kw)
     \<and> (\<forall>x. \<exists>kw'. run_training_loop X (F\<lparr>value_only_learning_rate := x\<rparr>) e ev w =
                (outcome X kw', log_call (TrainingLoop (jit_is_disabled w) kw') w)
            \<and> kw_policy_optimizer_fun kw' = kw_policy_optimizer_fun kw))"
proof -
  have bound: "\<exists>kw. (\<forall>w. run_training_loop X G e ev w =
                (outcome X kw, log_call (TrainingLoop (jit_is_disabled w) kw) w))
     \<and> kw_policy_and_value_optimizer_fun kw =
         (if combined_network F then Some (OptimizerFun (learning_rate G)) else None)
     \<and> kw_policy_optimizer_fun kw =
         (if combined_network F then None
          else Some (OptimizerFun (policy_only_learning_rate G)))
     \<and> kw_value_optimizer_fun kw =
         (if combined_network F then None
          else Some (OptimizerFun (value_only_learning_rate G)))"
    if c: "combined_network G = combined_network F"
      and q: "env_problem_name G = env_problem_name F" for G
  proof (cases "combined_network F")
    case True
    with c have "combined_network G" by simp
    from run_training_loop_combined [OF this, of X e ev] True show ?thesis
      by (auto simp: get_optimizer_fun_def)
  next
    case False
    with c have s: "\<not> combined_network G" by simp
    from q assms obtain ls where "common_layers G = Inr ls"
      using common_layers_Some [of G p] by auto
    from run_training_loop_separate [OF s this, of X e ev] False show ?thesis
      by (auto simp: get_optimizer_fun_def)
  qed
  from bound [of F] obtain kw
    where run: "run_training_loop X F e ev w =
                (outcome X kw, log_call (TrainingLoop (jit_is_disabled w) kw) w)"
      and pv: "kw_policy_and_value_optimizer_fun kw =
         (if combined_network F then Some (OptimizerFun (learning_rate F)) else None)"
      and po: "kw_policy_optimizer_fun kw =
         (if combined_network F then None
          else Some (OptimizerFun (policy_only_learning_rate F)))"
      and vo: "kw_value_optimizer_fun kw =
         (if combined_network F then None
          else Some (OptimizerFun (value_only_learning_rate F)))"
    by auto
  have pol: "\<exists>kw'. run_training_loop X (F\<lparr>policy_only_learning_rate := x\<rparr>) e ev w =
                (outcome X kw', log_call (TrainingLoop (jit_is_disabled w) kw') w)
            \<and> kw_value_optimizer_fun kw' = kw_value_optimizer_fun kw" for x
    using bound [of "F\<lparr>policy_only_learning_rate := x\<rparr>"] vo by auto
  have val: "\<exists>kw'. run_training_loop X (F\<lparr>value_only_learning_rate := x\<rparr>) e ev w =
                (outcome X kw', log_call (TrainingLoop (jit_is_disabled w) kw') w)
            \<and> kw_policy_optimizer_fun kw' = kw_policy_optimizer_fun kw" for x
    using bound [of "F\<lparr>value_only_learning_rate := x\<rparr>"] po by auto
  have part: "\<forall>r. get_optimizer_fun r = OptimizerFun r"
    by (simp add: get_optimizer_fun_def)
  from run pv po vo pol val have "\<exists>kw. run_training_loop X F e ev w =
                (outcome X kw, log_call (TrainingLoop (jit_is_disabled w) kw) w)
     \<and> (if combined_network F then
           kw_policy_and_value_optimizer_fun kw = Some (OptimizerFun (learning_rate F))
           \<and> kw_policy_optimizer_fun kw = None
           \<and> kw_value_optimizer_fun kw = None
         else
           kw_policy_optimizer_fun kw = Some (OptimizerFun (policy_only_learning_rate F))
           \<and> kw_value_optimizer_fun kw = Some (OptimizerFun (value_only_learning_rate F))
           \<and> kw_policy_and_value_optimizer_fun kw = None)
     \<and> (\<forall>x. \<exists>kw'. run_training_loop X (F\<lparr>policy_only_learning_rate := x\<rparr>) e ev w =
                (outcome X kw', log_call (TrainingLoop (jit_is_disabled w) kw') w)
            \<and> kw_value_optimizer_fun kw' = kw_value_optimizer_fun kw)
     \<and> (\<forall>x. \<exists>kw'. run_training_loop X (F\<lparr>value_only_learning_rate := x\<rparr>) e ev w =
                (outcome X kw', log_call (TrainingLoop (jit_is_disabled w) kw') w)
            \<and> kw_policy_optimizer_fun kw' = kw_policy_optimizer_fun kw)"
    by (intro exI [of _ kw]) simp
  with part show ?thesis by blast
qed

theorem learning_rate_binding_witness:
  "env_problem_name (cartpole_flags\<lparr>policy_only_learning_rate := 1 / 2,
       value_only_learning_rate := 1 / 4\<rparr>) = Some ''CartPole-v1''
   \<and> combined_network (cartpole_flags\<lparr>policy_only_learning_rate := 1 / 2,
       value_only_learning_rate := 1 / 4\<rparr>) = False
   \<and> get_optimizer_fun (1 / 2) = OptimizerFun (1 / 2)
   \<and> get_optimizer_fun (3 / 10000) = OptimizerFun (3 / 10000)
   \<and> (\<exists>kw. run_training_loop returning_trainer
              (cartpole_flags\<lparr>policy_only_learning_rate := 1 / 2,
                 value_only_learning_rate := 1 / 4\<rparr>)
              (EnvProblem ''CartPole-v1'' 4 (-1, 1)) (EnvProblem ''CartPole-v1'' 2 (-1, 1))
              initial_world =
            (Inr (), log_call (TrainingLoop False kw) initial_world)
        \<and> kw_policy_optimizer_fun kw = Some (OptimizerFun (1 / 2))
        \<and> kw_value_optimizer_fun kw = Some (OptimizerFun (1 / 4))
        \<and> kw_policy_and_value_optimizer_fun kw = None
        \<and> (\<exists>kw'. run_training_loop returning_trainer
                (cartpole_flags\<lparr>policy_only_learning_rate := 1 / 2,
                   value_only_learning_rate := 1 / 4, policy_only_learning_rate := 7\<rparr>)
                (EnvProblem ''CartPole-v1'' 4 (-1, 1)) (EnvProblem ''CartPole-v1'' 2 (-1, 1))
                initial_world =
              (Inr (), log_call (TrainingLoop False kw') initial_world)
            \<and> kw_value_optimizer_fun kw' = Some (OptimizerFun (1 / 4)))
        \<and> (\<exists>kw'. run_training_loop returning_trainer
                (cartpole_flags\<lparr>policy_only_learning_rate := 1 / 2,
                   value_only_learning_rate := 1 / 4, value_only_learning_rate := 7\<rparr>)
                (EnvProblem ''CartPole-v1'' 4 (-1, 1)) (EnvProblem ''CartPole-v1'' 2 (-1, 1))
                initial_world =
              (Inr (), log_call (TrainingLoop False kw') initial_world)
            \<and> kw_policy_optimizer_fun kw' = Some (OptimizerFun (1 / 2))))
   \<and> env_problem_name (pong_flags\<lparr>learning_rate := 1 / 8\<rparr>) = Some ''PongNoFrameskip-v4''
   \<and> combined_network (pong_flags\<lparr>learning_rate := 1 / 8\<rparr>) = True
   \<and> (\<exists>kw. run_training_loop returning_trainer (pong_flags\<lparr>learning_rate := 1 / 8\<rparr>)
              (EnvProblem ''PongNoFrameskip-v4'' 32 (-1, 1))
              (EnvProblem ''PongNoFrameskip-v4'' 4 (-1, 1)) initial_world =
            (Inr (), log_call (TrainingLoop False kw) initial_world)
        \<and> kw_policy_and_value_optimizer_fun kw = Some (OptimizerFun (1 / 8))
        \<and> kw_policy_optimizer_fun kw = None
        \<and> kw_value_optimizer_fun kw = None)"
proof -
  let ?C = "cartpole_flags\<lparr>policy_only_learning_rate := 1 / 2,
              value_only_learning_rate := 1 / 4\<rparr>"
  let ?P = "pong_flags\<lparr>learning_rate := 1 / 8\<rparr>"
  have a: "env_problem_name ?C = Some ''CartPole-v1''"
    and b: "combined_network ?C = False"
    by (simp_all add: cartpole_flags_def default_flags_def)
  have r: "policy_only_learning_rate ?C = 1 / 2" "value_only_learning_rate ?C = 1 / 4"
    by simp_all
  have c: "env_problem_name ?P = Some ''PongNoFrameskip-v4''"
    and d: "combined_network ?P = True"
    by (simp_all add: pong_flags_def default_flags_def)
  have l: "learning_rate ?P = 1 / 8"
    by simp
  have o: "outcome returning_trainer kw = Inr ()" for kw
    by (simp add: outcome_def returning_trainer_def)
  have j: "jit_is_disabled initial_world = False"
    by (simp add: initial_world_def)
  note sep = learning_rate_binding [OF a, of returning_trainer
      "EnvProblem ''CartPole-v1'' 4 (-1, 1)" "EnvProblem ''CartPole-v1'' 2 (-1, 1)" initial_world]
  note comb = learning_rate_binding [OF c, of returning_trainer
      "EnvProblem ''PongNoFrameskip-v4'' 32 (-1, 1)"
      "EnvProblem ''PongNoFrameskip-v4'' 4 (-1, 1)" initial_world]
  from sep have g: "get_optimizer_fun (1 / 2) = OptimizerFun (1 / 2)"
    "get_optimizer_fun (3 / 10000) = OptimizerFun (3 / 10000)"
    by blast+
  from sep obtain kw where k:
    "run_training_loop returning_trainer ?C
       (EnvProblem ''CartPole-v1'' 4 (-1, 1)) (EnvProblem ''CartPole-v1'' 2 (-1, 1))
       initial_world = (Inr (), log_call (TrainingLoop False kw) initial_world)"
    "kw_policy_optimizer_fun kw = Some (OptimizerFun (1 / 2))"
    "kw_value_optimizer_fun kw = Some (OptimizerFun (1 / 4))"
    "kw_policy_and_value_optimizer_fun kw = None"
    "\<forall>x. \<exists>kw'. run_training_loop returning_trainer
                (?C\<lparr>policy_only_learning_rate := x\<rparr>)
                (EnvProblem ''CartPole-v1'' 4 (-1, 1)) (EnvProblem ''CartPole-v1'' 2 (-1, 1))
                initial_world =
              (Inr (), log_call (TrainingLoop False kw') initial_world)
            \<and> kw_value_optimizer_fun kw' = Some (OptimizerFun (1 / 4))"
    "\<forall>x. \<exists>kw'. run_training_loop returning_trainer
                (?C\<lparr>value_only_learning_rate := x\<rparr>)
                (EnvProblem ''CartPole-v1'' 4 (-1, 1)) (EnvProblem ''CartPole-v1'' 2 (-1, 1))
                initial_world =
              (Inr (), log_call (TrainingLoop False kw') initial_world)
            \<and> kw_policy_optimizer_fun kw' = Some (OptimizerFun (1 / 2))"
    unfolding b o j r by auto
  then have 1: "\<exists>kw. run_training_loop returning_trainer ?C
              (EnvProblem ''CartPole-v1'' 4 (-1, 1)) (EnvProblem ''CartPole-v1'' 2 (-1, 1))
              initial_world =
            (Inr (), log_call (TrainingLoop False kw) initial_world)
        \<and> kw_policy_optimizer_fun kw = Some (OptimizerFun (1 / 2))
        \<and> kw_value_optimizer_fun kw = Some (OptimizerFun (1 / 4))
        \<and> kw_policy_and_value_optimizer_fun kw = None
        \<and> (\<exists>kw'. run_training_loop returning_trainer
                (?C\<lparr>policy_only_learning_rate := 7\<rparr>)
                (EnvProblem ''CartPole-v1'' 4 (-1, 1)) (EnvProblem ''CartPole-v1'' 2 (-1, 1))
                initial_world =
              (Inr (), log_call (TrainingLoop False kw') initial_world)
            \<and> kw_value_optimizer_fun kw' = Some (OptimizerFun (1 / 4)))
        \<and> (\<exists>kw'. run_training_loop returning_trainer
                (?C\<lparr>value_only_learning_rate := 7\<rparr>)
                (EnvProblem ''CartPole-v1'' 4 (-1, 1)) (EnvProblem ''CartPole-v1'' 2 (-1, 1))
                initial_world =
              (Inr (), log_call (TrainingLoop False kw') initial_world)
            \<and> kw_policy_optimizer_fun kw' = Some (OptimizerFun (1 / 2)))"
    by blast
  from comb have 2: "\<exists>kw. run_training_loop returning_trainer ?P
              (EnvProblem ''PongNoFrameskip-v4'' 32 (-1, 1))
              (EnvProblem ''PongNoFrameskip-v4'' 4 (-1, 1)) initial_world =
            (Inr (), log_call (TrainingLoop False kw) initial_world)
        \<and> kw_policy_and_value_optimizer_fun kw = Some (OptimizerFun (1 / 8))
        \<and> kw_policy_optimizer_fun kw = None
        \<and> kw_value_optimizer_fun kw = None"
    unfolding d o j l by auto
  from a b g c d 1 2 show ?thesis by blast
qed

text \<open>
  C4. The seed handed to the trainer is the integer \<open>int(FLAGS.random_seed)\<close> when that
  call returns, and \<open>None\<close> when it raises, as it does on a string that is no integer and
  on the flag's default \<open>None\<close>. The conversion contributes no exception: the result of
  \<open>run_training_loop\<close> is the outcome of the trainer, which is called in every case.
\<close>

theorem random_seed_resolution:
  assumes "env_problem_name F = Some p"
  shows "\<exists>kw. run_training_loop X F e ev w =
                (outcome X kw, log_call (TrainingLoop (jit_is_disabled w) kw) w)
     \<and> kw_random_seed kw =
         (case random_seed F of None \<Rightarrow> None | Some s \<Rightarrow> int_of_str X s)"
proof (cases "combined_network F")
  case True
  from run_training_loop_combined [OF True, of X e ev] show ?thesis by blast
next
  case False
  from assms obtain ls where "common_layers F = Inr ls"
    using common_layers_Some by blast
  from run_training_loop_separate [OF False this, of X e ev] show ?thesis by blast
qed

theorem random_seed_resolution_witness:
  "env_problem_name acrobot_flags = Some ''Acrobot-v1''
   \<and> random_seed acrobot_flags = Some ''0''
   \<and> (\<exists>kw. run_training_loop returning_trainer acrobot_flags
              (EnvProblem ''Acrobot-v1'' 32 (-1, 1)) (EnvProblem ''Acrobot-v1'' 4 (-1, 1))
              initial_world =
            (Inr (), log_call (TrainingLoop False kw) initial_world)
        \<and> kw_random_seed kw = Some 0)
   \<and> (\<exists>kw. run_training_loop returning_trainer (acrobot_flags\<lparr>random_seed := Some ''-17''\<rparr>)
              (EnvProblem ''Acrobot-v1'' 32 (-1, 1)) (EnvProblem ''Acrobot-v1'' 4 (-1, 1))
              initial_world =
            (Inr (), log_call (TrainingLoop False kw) initial_world)
        \<and> kw_random_seed kw = Some (- 17))
   \<and> (\<exists>kw. run_training_loop returning_trainer (acrobot_flags\<lparr>random_seed := Some ''abc''\<rparr>)
              (EnvProblem ''Acrobot-v1'' 32 (-1, 1)) (EnvProblem ''Acrobot-v1'' 4 (-1, 1))
              initial_world =
            (Inr (), log_call (TrainingLoop False kw) initial_world)
        \<and> kw_random_seed kw = None)
   \<and> (\<exists>kw. run_training_loop returning_trainer (acrobot_flags\<lparr>random_seed := None\<rparr>)
              (EnvProblem ''Acrobot-v1'' 32 (-1, 1)) (EnvProblem ''Acrobot-v1'' 4 (-1, 1))
              initial_world =
            (Inr (), log_call (TrainingLoop False kw) initial_world)
        \<and> kw_random_seed kw = None)"
proof -
  have a: "env_problem_name acrobot_flags = Some ''Acrobot-v1''"
    and s: "random_seed acrobot_flags = Some ''0''"
    by (simp_all add: acrobot_flags_def default_flags_def)
  have a': "env_problem_name (acrobot_flags\<lparr>random_seed := x\<rparr>) = Some ''Acrobot-v1''" for x
    using a by simp
  have o: "outcome returning_trainer kw = Inr ()" for kw
    by (simp add: outcome_def returning_trainer_def)
  have i: "int_of_str returning_trainer = decimal_int"
    by (simp add: returning_trainer_def)
  have j: "jit_is_disabled initial_world = False"
    by (simp add: initial_world_def)
  have d: "decimal_int ''0'' = Some 0" "decimal_int ''-17'' = Some (- 17)"
    "decimal_int ''abc'' = None"
    by (simp_all add: decimal_int_def)
  from random_seed_resolution [OF a, of returning_trainer
      "EnvProblem ''Acrobot-v1'' 32 (-1, 1)" "EnvProblem ''Acrobot-v1'' 4 (-1, 1)" initial_world]
  have 1: "\<exists>kw. run_training_loop returning_trainer acrobot_flags
              (EnvProblem ''Acrobot-v1'' 32 (-1, 1)) (EnvProblem ''Acrobot-v1'' 4 (-1, 1))
              initial_world =
            (Inr (), log_call (TrainingLoop False kw) initial_world)
        \<and> kw_random_seed kw = Some 0"
    by (simp add: o i j s d)
  from random_seed_resolution [OF a' [of "Some ''-17''"], of returning_trainer
      "EnvProblem ''Acrobot-v1'' 32 (-1, 1)" "EnvProblem ''Acrobot-v1'' 4 (-1, 1)" initial_world]
  have 2: "\<exists>kw. run_training_loop returning_trainer (acrobot_flags\<lparr>random_seed := Some ''-17''\<rparr>)
              (EnvProblem ''Acrobot-v1'' 32 (-1, 1)) (EnvProblem ''Acrobot-v1'' 4 (-1, 1))
              initial_world =
            (Inr (), log_call (TrainingLoop False kw) initial_world)
        \<and> kw_random_seed kw = Some (- 17)"
    by (simp add: o i j d)
  from random_seed_resolution [OF a' [of "Some ''abc''"], of returning_trainer
      "EnvProblem ''Acrobot-v1'' 32 (-1, 1)" "EnvProblem ''Acrobot-v1'' 4 (-1, 1)" initial_world]
  have 3: "\<exists>kw. run_training_loop returning_trainer (acrobot_flags\<lparr>random_seed := Some ''abc''\<rparr>)
              (EnvProblem ''Acrobot-v1'' 32 (-1, 1)) (EnvProblem ''Acrobot-v1'' 4 (-1, 1))
              initial_world =
            (Inr (), log_call (TrainingLoop False kw) initial_world)
        \<and> kw_random_seed kw = None"
    by (simp add: o i j d)
  from random_seed_resolution [OF a' [of None], of returning_trainer
      "EnvProblem ''Acrobot-v1'' 32 (-1, 1)" "EnvProblem ''Acrobot-v1'' 4 (-1, 1)" initial_world]
  have 4: "\<exists>kw. run_training_loop returning_trainer (acrobot_flags\<lparr>random_seed := None\<rparr>)
              (EnvProblem ''Acrobot-v1'' 32 (-1, 1)) (EnvProblem ''Acrobot-v1'' 4 (-1, 1))
              initial_world =
            (Inr (), log_call (TrainingLoop False kw) initial_world)
        \<and> kw_random_seed kw = None"
    by (simp add: o i j)
  from a s 1 2 3 4 show ?thesis by blast
qed

subsection \<open>The execution mode\<close>

text \<open>
  C8, as the code has it. On every option set that names an environment the trainer is
  called once, as the last call, with jit disabled when \<open>jax_debug_nans\<close> or
  \<open>disable_jit\<close> is set and with the switch as \<open>main\<close> found it otherwise, and the result
  of \<open>main\<close> is the trainer's outcome. The switch of \<open>jax.disable_jit\<close> is, at the end of
  \<open>main\<close>, what it was at the start: always when \<open>main\<close> returns or when neither flag is
  set, and also when \<open>main\<close> raises if the context manager restores on that exit. The
  configuration value \<open>jax_debug_nans\<close> is set by \<open>config.update\<close> when the flag is set
  and stays set, and \<open>jax_platform_name\<close> likewise under \<open>use_tpu\<close>.
\<close>

theorem disable_jit_scoped:
  "(disable_jit_restores_on_raise X \<or> fst (main X F w) = Inr ()
      \<or> \<not> (jax_debug_nans F \<or> disable_jit F) \<longrightarrow>
      jit_is_disabled (snd (main X F w)) = jit_is_disabled w)
   \<and> config_jax_debug_nans (snd (main X F w)) = (jax_debug_nans F \<or> config_jax_debug_nans w)
   \<and> config_jax_platform_name (snd (main X F w)) =
       (if use_tpu F then Some ''tpu'' else config_jax_platform_name w)
   \<and> (\<forall>p. env_problem_name F = Some p \<and> (truthy (env_name F) \<noteq> None \<or> p \<noteq> []) \<longrightarrow>
         (\<exists>pre kw. fst (main X F w) = outcome X kw
            \<and> calls_since w (snd (main X F w)) =
                pre @ [TrainingLoop (jax_debug_nans F \<or> disable_jit F \<or> jit_is_disabled w) kw]
            \<and> (\<forall>j kw'. TrainingLoop j kw' \<notin> set pre)))"
proof -
  have reach: "\<exists>pre kw. fst (main X F w) = outcome X kw
            \<and> calls_since w (snd (main X F w)) =
                pre @ [TrainingLoop (jax_debug_nans F \<or> disable_jit F \<or> jit_is_disabled w) kw]
            \<and> (\<forall>j kw'. TrainingLoop j kw' \<notin> set pre)"
    if p: "env_problem_name F = Some p" and v: "truthy (env_name F) \<noteq> None \<or> p \<noteq> []" for p
  proof -
    from main_named [OF p v, of X w] obtain e ev kw
      where f: "fst (main X F w) = outcome X kw"
        and c: "calls (snd (main X F w)) =
           calls w @ (if str_contains ''Pong'' p \<and> xm F then [CopyRoms] else []) @
           [Construct e, Construct ev,
            TrainingLoop (jax_debug_nans F \<or> disable_jit F \<or> jit_is_disabled w) kw]"
      by blast
    let ?pre = "(if str_contains ''Pong'' p \<and> xm F then [CopyRoms] else []) @
                [Construct e, Construct ev]"
    from c have "calls (snd (main X F w)) = calls w @ ?pre @
        [TrainingLoop (jax_debug_nans F \<or> disable_jit F \<or> jit_is_disabled w) kw]"
      by simp
    then have "calls_since w (snd (main X F w)) = ?pre @
        [TrainingLoop (jax_debug_nans F \<or> disable_jit F \<or> jit_is_disabled w) kw]"
      by (rule calls_since_append)
    moreover have "\<forall>j kw'. TrainingLoop j kw' \<notin> set ?pre"
      by simp
    ultimately show ?thesis using f by blast
  qed
  from main_config [of X F w] main_jit [of X F w] reach show ?thesis by blast
qed

theorem disable_jit_scoped_witness:
  "env_problem_name nan_debug_flags = Some ''CartPole-v1''
   \<and> ''CartPole-v1'' \<noteq> []
   \<and> disable_jit_restores_on_raise raising_trainer
   \<and> jit_is_disabled initial_world = False
   \<and> jit_is_disabled (snd (main raising_trainer nan_debug_flags initial_world)) = False
   \<and> config_jax_debug_nans (snd (main raising_trainer nan_debug_flags initial_world)) = True
   \<and> (\<exists>pre kw. fst (main raising_trainer nan_debug_flags initial_world) = Inl TrainerError
        \<and> calls_since initial_world (snd (main raising_trainer nan_debug_flags initial_world)) =
            pre @ [TrainingLoop True kw])
   \<and> (\<exists>pre kw. fst (main returning_trainer cartpole_flags initial_world) = Inr ()
        \<and> calls_since initial_world (snd (main returning_trainer cartpole_flags initial_world)) =
            pre @ [TrainingLoop False kw])"
proof -
  have a: "env_problem_name nan_debug_flags = Some ''CartPole-v1''"
    and b: "''CartPole-v1'' \<noteq> []"
    and n: "jax_debug_nans nan_debug_flags"
    by (simp_all add: nan_debug_flags_def cartpole_flags_def default_flags_def)
  have a': "env_problem_name cartpole_flags = Some ''CartPole-v1''"
    and n': "\<not> jax_debug_nans cartpole_flags" "\<not> disable_jit cartpole_flags"
    by (simp_all add: cartpole_flags_def default_flags_def)
  have j: "jit_is_disabled initial_world = False"
    by (simp add: initial_world_def)
  have t: "disable_jit_restores_on_raise raising_trainer"
    by (simp add: raising_trainer_def)
  have o: "outcome raising_trainer kw = Inl TrainerError"
    "outcome returning_trainer kw = Inr ()" for kw
    by (simp_all add: outcome_def raising_trainer_def returning_trainer_def)
  note nans = disable_jit_scoped [of raising_trainer nan_debug_flags initial_world]
  note plain = disable_jit_scoped [of returning_trainer cartpole_flags initial_world]
  from nans j t have 1:
    "jit_is_disabled (snd (main raising_trainer nan_debug_flags initial_world)) = False"
    by simp
  from nans n have 2:
    "config_jax_debug_nans (snd (main raising_trainer nan_debug_flags initial_world)) = True"
    by simp
  from nans a b have "\<exists>pre kw.
      fst (main raising_trainer nan_debug_flags initial_world) = outcome raising_trainer kw
      \<and> calls_since initial_world (snd (main raising_trainer nan_debug_flags initial_world)) =
          pre @ [TrainingLoop (jax_debug_nans nan_debug_flags \<or> disable_jit nan_debug_flags
                   \<or> jit_is_disabled initial_world) kw]"
    by blast
  with n o have 3: "\<exists>pre kw.
      fst (main raising_trainer nan_debug_flags initial_world) = Inl TrainerError
      \<and> calls_since initial_world (snd (main raising_trainer nan_debug_flags initial_world)) =
          pre @ [TrainingLoop True kw]"
    by simp
  from plain a' b have "\<exists>pre kw.
      fst (main returning_trainer cartpole_flags initial_world) = outcome returning_trainer kw
      \<and> calls_since initial_world (snd (main returning_trainer cartpole_flags initial_world)) =
          pre @ [TrainingLoop (jax_debug_nans cartpole_flags \<or> disable_jit cartpole_flags
                   \<or> jit_is_disabled initial_world) kw]"
    by blast
  with n' j o have 4: "\<exists>pre kw.
      fst (main returning_trainer cartpole_flags initial_world) = Inr ()
      \<and> calls_since initial_world (snd (main returning_trainer cartpole_flags initial_world)) =
          pre @ [TrainingLoop False kw]"
    by simp
  from a b t j 1 2 3 4 show ?thesis by blast
qed

text \<open>
  The claim as the specification states it, that every backend mode \<open>main\<close> touches is
  restored and nothing of the process is changed for good, fails on a run that debugs
  NaNs: \<open>jax_debug_nans\<close> is off before \<open>main\<close> and on after it.
\<close>

theorem jax_debug_nans_not_restored:
  "config_jax_debug_nans (snd (main returning_trainer nan_debug_flags initial_world)) \<noteq>
   config_jax_debug_nans initial_world"
proof -
  have "jax_debug_nans nan_debug_flags"
    by (simp add: nan_debug_flags_def)
  moreover have "\<not> config_jax_debug_nans initial_world"
    by (simp add: initial_world_def)
  ultimately show ?thesis
    using main_config [of returning_trainer nan_debug_flags initial_world] by simp
qed

text \<open>
  The condition on the context manager cannot be dropped: with one that restores after a
  bare \<open>yield\<close>, a run that debugs NaNs and whose trainer raises leaves jit disabled.
\<close>

lemma jit_left_disabled_on_raise:
  "jit_is_disabled initial_world = False
   \<and> fst (main raising_trainer_bare_yield nan_debug_flags initial_world) = Inl TrainerError
   \<and> jit_is_disabled (snd (main raising_trainer_bare_yield nan_debug_flags initial_world)) = True"
proof -
  have p: "env_problem_name nan_debug_flags = Some ''CartPole-v1''"
    and n: "jax_debug_nans nan_debug_flags"
    by (simp_all add: nan_debug_flags_def cartpole_flags_def default_flags_def)
  have v: "truthy (env_name nan_debug_flags) \<noteq> None \<or> ''CartPole-v1'' \<noteq> []"
    by simp
  have t: "training_loop raising_trainer_bare_yield kw = Some TrainerError"
    "\<not> disable_jit_restores_on_raise raising_trainer_bare_yield" for kw
    by (simp_all add: raising_trainer_bare_yield_def raising_trainer_def)
  have j: "jit_is_disabled initial_world = False"
    by (simp add: initial_world_def)
  from main_named [OF p v, of raising_trainer_bare_yield initial_world] n t j show ?thesis
    by (auto simp: outcome_def)
qed

end
